theory Spec2Isabelle
  imports Main "HOL-Library.AList"
begin

section \<open>Data model of reminderbot.py\<close>

text \<open>
  Python dictionaries keep insertion order and are read with \<open>d.get(k, default)\<close>;
  they are association lists here, read through \<open>map_of\<close>.
\<close>

definition dict_get :: "('k \<times> 'v) list \<Rightarrow> 'k \<Rightarrow> 'v \<Rightarrow> 'v" where
  "dict_get d k dflt = (case map_of d k of None \<Rightarrow> dflt | Some v \<Rightarrow> v)"

text \<open>
  The dataclass \<open>UserProfile\<close>. Field names that two dataclasses share carry the suffix
  \<open>_p\<close> here. Instants (ISO strings in the source) are integers, see the section on time.
\<close>

record UserProfile =
  user_id_p :: int
  timezone_p :: string
  is_premium :: bool
  premium_tier :: string
  credits :: int
  name_p :: "string option"
  username :: "string option"
  first_seen :: "int option"
  last_seen :: "int option"
  preferences :: "(string \<times> string) list option"
  usage_stats :: "(string \<times> string) list option"

text \<open>The dataclass \<open>RedeemCode\<close>.\<close>

record RedeemCode =
  code :: string
  kind :: string
  amount :: int
  expires_at :: "int option"
  max_uses :: int
  used :: int
  plan_name :: "string option"

subsection \<open>Tier table\<close>

record tier_info =
  max_active :: int
  snooze_limit :: int
  features :: "string list"

definition tier_FREE :: tier_info where
  "tier_FREE = \<lparr>max_active = 20, snooze_limit = 1,
     features = [''basic_reminders'', ''simple_recurring'']\<rparr>"

definition tier_SILVER :: tier_info where
  "tier_SILVER = \<lparr>max_active = 100, snooze_limit = 3,
     features = [''basic_reminders'', ''simple_recurring'', ''categories'', ''templates'']\<rparr>"

definition tier_GOLD :: tier_info where
  "tier_GOLD = \<lparr>max_active = 300, snooze_limit = 5,
     features = [''basic_reminders'', ''simple_recurring'', ''categories'', ''templates'',
       ''smart_scheduling'', ''location_reminders'']\<rparr>"

definition tier_PLATINUM :: tier_info where
  "tier_PLATINUM = \<lparr>max_active = 1000, snooze_limit = 10,
     features = [''basic_reminders'', ''simple_recurring'', ''categories'', ''templates'',
       ''smart_scheduling'', ''location_reminders'', ''ai_suggestions'', ''team_sharing'',
       ''priority_support'']\<rparr>"

definition PREMIUM_TIERS :: "(string \<times> tier_info) list" where
  "PREMIUM_TIERS =
     [(''FREE'', tier_FREE), (''SILVER'', tier_SILVER),
      (''GOLD'', tier_GOLD), (''PLATINUM'', tier_PLATINUM)]"

text \<open>
  \<open>get_user_tier_info\<close>: the tier name is the profile's \<open>premium_tier\<close> only when
  \<open>is_premium\<close> is set, and an unknown name falls back to the FREE entry.
\<close>

definition get_user_tier_info :: "UserProfile \<Rightarrow> tier_info" where
  "get_user_tier_info profile =
     (let tier = (if is_premium profile then premium_tier profile else ''FREE'')
      in dict_get PREMIUM_TIERS tier tier_FREE)"

subsection \<open>CreditPolicy\<close>

text \<open>
  \<open>can_create\<close> returns a pair of a verdict and an optional reason. The two reasons are
  formatted messages in the source; the first interpolates the count, the limit and the
  profile's tier name, which the constructor carries.
\<close>

datatype deny_reason = LimitReached int int string | NoCredits

definition can_create :: "UserProfile \<Rightarrow> int \<Rightarrow> bool \<times> deny_reason option" where
  "can_create profile active_count =
     (let tier_info = get_user_tier_info profile;
          limit = max_active tier_info
      in if active_count \<ge> limit
         then (False, Some (LimitReached active_count limit (premium_tier profile)))
         else if \<not> is_premium profile \<and> credits profile \<le> 0
         then (False, Some NoCredits)
         else (True, None))"

definition consume_on_create :: "UserProfile \<Rightarrow> int" where
  "consume_on_create profile = (if is_premium profile then 0 else 1)"

definition get_snooze_limit :: "UserProfile \<Rightarrow> int" where
  "get_snooze_limit profile = snooze_limit (get_user_tier_info profile)"

subsection \<open>Redeeming a plan code\<close>

text \<open>
  The branch \<open>code.kind == "plan"\<close> of the redeem flow in \<open>on_text_message\<close>, as far as
  the profile is concerned: \<open>code.plan_name or "PREMIUM"\<close> takes the default for a
  missing and for an empty plan name.
\<close>

definition redeem_plan :: "UserProfile \<Rightarrow> RedeemCode \<Rightarrow> UserProfile" where
  "redeem_plan profile c =
     profile\<lparr>is_premium := True,
             premium_tier := (case plan_name c of
                                None \<Rightarrow> ''PREMIUM''
                              | Some n \<Rightarrow> if n = [] then ''PREMIUM'' else n)\<rparr>"

section \<open>Time\<close>

text \<open>
  An instant is an integer: the microseconds since 1970-01-01T00:00:00 UTC, the resolution
  of Python's \<open>datetime\<close>. \<open>datetime\<close> holds the years 1 to 9999 only, and its
  arithmetic raises \<open>OverflowError\<close> outside them.
\<close>

datatype error =
    UnknownTimeZoneError string
  | OverflowError
  | ValueError
  | SendError

definition DT_MIN :: int where "DT_MIN = - 62135596800000000"
definition DT_MAX :: int where "DT_MAX = 253402300799999999"

definition in_range :: "int \<Rightarrow> bool" where
  "in_range t = (DT_MIN \<le> t \<and> t \<le> DT_MAX)"

definition checked :: "int \<Rightarrow> error + int" where
  "checked t = (if in_range t then Inr t else Inl OverflowError)"

definition timedelta_seconds :: "int \<Rightarrow> int" where "timedelta_seconds n = n * 1000000"
definition timedelta_minutes :: "int \<Rightarrow> int" where "timedelta_minutes n = n * 60000000"
definition timedelta_days :: "int \<Rightarrow> int" where "timedelta_days n = n * 86400000000"
definition timedelta_weeks :: "int \<Rightarrow> int" where "timedelta_weeks n = timedelta_days (7 * n)"

text \<open>
  The stored \<open>when_iso\<close> is an ISO-8601 string with an offset. \<open>to_iso\<close> writes an aware
  datetime and \<open>from_iso\<close> reads it back and shifts it to UTC, so the pair is the identity
  on instants; the store of the model keeps the instant the string denotes. An integer
  outside datetime's range denotes no string, and \<open>from_iso\<close> raises on it as
  \<open>fromisoformat\<close> does on malformed text.
\<close>

definition to_iso :: "int \<Rightarrow> int" where
  "to_iso dt = dt"

definition from_iso :: "int \<Rightarrow> error + int" where
  "from_iso s = (if in_range s then Inr s else Inl ValueError)"

text \<open>
  A pytz zone is the function giving the UTC offset in force at a UTC instant; the zone
  database \<open>pytz.timezone\<close> is a parameter. An aware datetime in such a zone is its
  wall-clock reading together with the fixed offset of the \<open>tzinfo\<close> object it carries:
  \<open>astimezone(tz)\<close> picks the offset in force at the instant, \<open>+ timedelta\<close> adds to the
  wall clock and keeps the \<open>tzinfo\<close> object, and \<open>astimezone(pytz.UTC)\<close> subtracts the
  carried offset.
\<close>

type_synonym tzinfo = "int \<Rightarrow> int"

record datetime =
  wall :: int
  utcoffset :: int

definition astimezone :: "tzinfo \<Rightarrow> int \<Rightarrow> error + datetime" where
  "astimezone tz t =
     (case checked (t + tz t) of
        Inl e \<Rightarrow> Inl e
      | Inr w \<Rightarrow> Inr \<lparr>wall = w, utcoffset = tz t\<rparr>)"

definition plus_timedelta :: "datetime \<Rightarrow> int \<Rightarrow> error + datetime" where
  "plus_timedelta dt d =
     (case checked (wall dt + d) of
        Inl e \<Rightarrow> Inl e
      | Inr w \<Rightarrow> Inr (dt\<lparr>wall := w\<rparr>))"

definition astimezone_utc :: "datetime \<Rightarrow> error + int" where
  "astimezone_utc dt = checked (wall dt - utcoffset dt)"

text \<open>\<open>weekday()\<close>: Monday is 0; 1970-01-01 was a Thursday.\<close>

definition weekday :: "datetime \<Rightarrow> int" where
  "weekday dt = (wall dt div 86400000000 + 3) mod 7"



section \<open>Reminders and the recurrence calculator\<close>

text \<open>
  The dictionary \<open>recurring\<close> with its four documented keys; \<open>None\<close> is a missing key.
  Its values are integers where the source applies \<open>int(...)\<close>.
\<close>

record recurrence =
  rtype :: "string option"
  interval :: "int option"
  dow :: "int option"
  rtime :: "string option"

text \<open>
  The dataclass \<open>Reminder\<close>; \<open>id\<close>, \<open>text\<close> and \<open>done\<close> carry the suffix \<open>_r\<close>.
\<close>

record Reminder =
  id_r :: string
  chat_id :: int
  user_id :: int
  text_r :: string
  when_iso :: int
  timezone :: string
  created_at :: int
  snoozes_used :: int
  recurring :: "recurrence option"
  done_r :: bool
  category :: "string option"
  priority :: int
  tags :: "string list option"
  location :: "(string \<times> string) list option"
  template_id :: "string option"

definition empty_dict :: recurrence where
  "empty_dict = \<lparr>rtype = None, interval = None, dow = None, rtime = None\<rparr>"

text \<open>Python's truth value of \<open>r.recurring\<close>: false for \<open>None\<close> and for the empty dict.\<close>

definition truthy :: "recurrence option \<Rightarrow> bool" where
  "truthy d = (case d of None \<Rightarrow> False | Some rec \<Rightarrow> rec \<noteq> empty_dict)"

text \<open>
  The loop \<open>while next_local.weekday() != dow: next_local += timedelta(days=1)\<close>. Each
  round moves the wall clock a day forward, so the loop ends at the wanted weekday or
  with the \<open>OverflowError\<close> of the addition that leaves year 9999.
\<close>

function move_to_weekday :: "int \<Rightarrow> datetime \<Rightarrow> error + datetime" where
  "move_to_weekday d next_local =
     (if weekday next_local \<noteq> d
      then (case plus_timedelta next_local (timedelta_days 1) of
              Inl e \<Rightarrow> Inl e
            | Inr next_local' \<Rightarrow> move_to_weekday d next_local')
      else Inr next_local)"
  by pat_completeness auto
termination
proof (relation "measure (\<lambda>(d, dt). nat (DT_MAX - wall dt))")
  show "wf (measure (\<lambda>(d, dt). nat (DT_MAX - wall dt)))"
    by simp
next
  fix d :: int and next_local next_local' :: datetime
  assume "plus_timedelta next_local (timedelta_days 1) = Inr next_local'"
  then have "wall next_local' = wall next_local + 86400000000 \<and> wall next_local' \<le> DT_MAX"
    by (auto simp: plus_timedelta_def checked_def in_range_def timedelta_days_def
        split: if_splits)
  then show "((d, next_local'), (d, next_local)) \<in> measure (\<lambda>(d, dt). nat (DT_MAX - wall dt))"
    by simp
qed

declare move_to_weekday.simps [simp del]

text \<open>
  \<open>ReminderScheduler._next_occurrence\<close>. \<open>Inl\<close> is a raised exception, \<open>Inr None\<close> the
  returned \<open>None\<close> of an unknown kind.
\<close>

definition next_occurrence :: "(string \<Rightarrow> tzinfo option) \<Rightarrow> Reminder \<Rightarrow> error + int option" where
  "next_occurrence pytz_timezone r =
     (let rec = (case recurring r of None \<Rightarrow> empty_dict | Some d \<Rightarrow> d);
          kind = rtype rec
      in case pytz_timezone (timezone r) of
           None \<Rightarrow> Inl (UnknownTimeZoneError (timezone r))
         | Some tz \<Rightarrow>
        (case from_iso (when_iso r) of
           Inl e \<Rightarrow> Inl e
         | Inr t \<Rightarrow>
        (case astimezone tz t of
           Inl e \<Rightarrow> Inl e
         | Inr base \<Rightarrow>
             if kind = Some ''daily'' then
               (let interval = (case interval rec of None \<Rightarrow> 1 | Some i \<Rightarrow> i)
                in case plus_timedelta base (timedelta_days interval) of
                     Inl e \<Rightarrow> Inl e
                   | Inr next_local \<Rightarrow> map_sum id Some (astimezone_utc next_local))
             else if kind = Some ''weekly'' then
               (let interval = (case interval rec of None \<Rightarrow> 1 | Some i \<Rightarrow> i);
                    d = (case dow rec of None \<Rightarrow> weekday base | Some i \<Rightarrow> i)
                in case plus_timedelta base (timedelta_weeks interval) of
                     Inl e \<Rightarrow> Inl e
                   | Inr next_local \<Rightarrow>
                       (case move_to_weekday d next_local of
                          Inl e \<Rightarrow> Inl e
                        | Inr next_local' \<Rightarrow> map_sum id Some (astimezone_utc next_local')))
             else Inr None)))"

section \<open>Stores, job queue and scheduler\<close>

text \<open>
  The state the handlers act on: the two JSON stores (dictionaries in insertion order),
  the job queue of the application (\<open>None\<close> when python-telegram-bot runs without its
  job-queue extra), the calls of \<open>bot.send_message\<close> made for reminders so far, each with
  the reminder snapshot it rendered and the exception it raised if any, and the number
  of readings of the clock taken so far.
\<close>

record job =
  job_when :: int
  job_name :: string
  job_data :: string

record state =
  rstore :: "(string \<times> Reminder) list"
  ustore :: "(int \<times> UserProfile) list"
  job_queue :: "job list option"
  sends :: "(Reminder \<times> error option) list"
  ticks :: nat

text \<open>
  What the handlers read from outside: the zone database of pytz and the clock, whose
  \<open>n\<close>-th reading \<open>now_utc()\<close> returns.
\<close>

record env =
  pytz_timezone :: "string \<Rightarrow> tzinfo option"
  clock :: "nat \<Rightarrow> int"

definition now_utc :: "env \<Rightarrow> state \<Rightarrow> int \<times> state" where
  "now_utc e s = (clock e (ticks s), s\<lparr>ticks := Suc (ticks s)\<rparr>)"

subsection \<open>ReminderStore and UserStore\<close>

definition rstore_all :: "state \<Rightarrow> Reminder list" where
  "rstore_all s = map snd (rstore s)"

definition rstore_get :: "state \<Rightarrow> string \<Rightarrow> Reminder option" where
  "rstore_get s reminder_id = map_of (rstore s) reminder_id"

definition rstore_put :: "Reminder \<Rightarrow> state \<Rightarrow> state" where
  "rstore_put reminder s = s\<lparr>rstore := AList.update (id_r reminder) reminder (rstore s)\<rparr>"

definition rstore_delete :: "string \<Rightarrow> state \<Rightarrow> state" where
  "rstore_delete reminder_id s = s\<lparr>rstore := AList.delete reminder_id (rstore s)\<rparr>"

definition new_profile :: "int \<Rightarrow> int \<Rightarrow> UserProfile" where
  "new_profile uid seen =
     \<lparr>user_id_p = uid, timezone_p = ''UTC'', is_premium = False, premium_tier = ''FREE'',
      credits = 15, name_p = None, username = None, first_seen = Some seen,
      last_seen = None, preferences = None, usage_stats = None\<rparr>"

definition get_user :: "env \<Rightarrow> int \<Rightarrow> state \<Rightarrow> UserProfile \<times> state" where
  "get_user e uid s =
     (case map_of (ustore s) uid of
        None \<Rightarrow>
          (let (now, s1) = now_utc e s;
               profile = new_profile uid (to_iso now)
           in (profile, s1\<lparr>ustore := AList.update uid profile (ustore s1)\<rparr>))
      | Some u \<Rightarrow> (u, s))"

subsection \<open>ReminderScheduler\<close>

text \<open>
  \<open>schedule_once\<close>: without a job queue it logs a warning and returns; otherwise its one
  call is \<open>jq.run_once(callback, when, name=reminder_id, data=reminder_id)\<close>, which adds
  a job to the queue. Job names are labels in python-telegram-bot, not keys: a new job
  replaces none.
\<close>

definition run_once :: "int \<Rightarrow> string \<Rightarrow> string \<Rightarrow> job list \<Rightarrow> job list" where
  "run_once when name data jq = jq @ [\<lparr>job_when = when, job_name = name, job_data = data\<rparr>]"

definition schedule_once :: "int \<Rightarrow> string \<Rightarrow> state \<Rightarrow> state" where
  "schedule_once when reminder_id s =
     (case job_queue s of
        None \<Rightarrow> s
      | Some jq \<Rightarrow> s\<lparr>job_queue := Some (run_once when reminder_id reminder_id jq)\<rparr>)"

text \<open>The pending timers that carry a reminder id.\<close>

definition pending :: "string \<Rightarrow> state \<Rightarrow> job list" where
  "pending reminder_id s =
     (case job_queue s of
        None \<Rightarrow> []
      | Some jq \<Rightarrow> filter (\<lambda>j. job_name j = reminder_id) jq)"

text \<open>
  \<open>human_dt\<close> formats the local datetime; the model returns the datetime it formats.
\<close>

definition human_dt :: "env \<Rightarrow> int \<Rightarrow> string \<Rightarrow> error + datetime" where
  "human_dt e dt tz_name =
     (case pytz_timezone e tz_name of
        None \<Rightarrow> Inl (UnknownTimeZoneError tz_name)
      | Some tz \<Rightarrow> astimezone tz dt)"

text \<open>
  The \<open>try\<close> block of \<open>_run_reminder_job\<close>: it builds the keyboard (pure), renders the
  text, which reads the stored instant and the zone, and calls \<open>send_message\<close>, whose
  outcome \<open>delivery\<close> is given from outside: \<open>None\<close> when the message went out, the
  exception otherwise. The statistics push that follows swallows its own exceptions and
  touches neither store. The result is the state and the exception leaving the block.
\<close>

definition try_send :: "env \<Rightarrow> error option \<Rightarrow> Reminder \<Rightarrow> state \<Rightarrow> state \<times> error option" where
  "try_send e delivery r s =
     (case from_iso (when_iso r) of
        Inl x \<Rightarrow> (s, Some x)
      | Inr dt \<Rightarrow>
     (case human_dt e dt (timezone r) of
        Inl x \<Rightarrow> (s, Some x)
      | Inr local \<Rightarrow> (s\<lparr>sends := sends s @ [(r, delivery)]\<rparr>, delivery)))"

text \<open>
  \<open>_run_reminder_job\<close>, the callback of a timer. The \<open>finally\<close> block runs whatever the
  \<open>try\<close> block did; an exception of the \<open>try\<close> block goes on to the caller after it,
  unless the \<open>finally\<close> block raises one itself. The result is the state and the
  exception that leaves the callback, if any.
\<close>

definition run_reminder_job :: "env \<Rightarrow> error option \<Rightarrow> string \<Rightarrow> state \<Rightarrow> state \<times> error option" where
  "run_reminder_job e delivery reminder_id s =
     (case rstore_get s reminder_id of
        None \<Rightarrow> (s, None)
      | Some r \<Rightarrow>
          if done_r r then (s, None)
          else
            (let (profile, s1) = get_user e (user_id r) s;
                 (s2, exc) = try_send e delivery r s1
             in if truthy (recurring r) then
                  (case next_occurrence (pytz_timezone e) r of
                     Inl x \<Rightarrow> (s2, Some x)
                   | Inr None \<Rightarrow> (s2, exc)
                   | Inr (Some next_when) \<Rightarrow>
                       (let r' = r\<lparr>when_iso := to_iso next_when\<rparr>
                        in (schedule_once next_when (id_r r') (rstore_put r' s2), exc)))
                else
                  (let r' = r\<lparr>done_r := True\<rparr>
                   in (rstore_put r' s2, exc))))"

text \<open>
  A timer firing: the job queue takes the run-once job off the queue and calls the
  callback with the job's data.
\<close>

definition fire :: "env \<Rightarrow> error option \<Rightarrow> job \<Rightarrow> state \<Rightarrow> state \<times> error option" where
  "fire e delivery j s =
     run_reminder_job e delivery (job_data j)
       (s\<lparr>job_queue := map_option (remove1 j) (job_queue s)\<rparr>)"

text \<open>
  \<open>schedule_all_on_startup\<close>: the loop over \<open>rstore.all()\<close>, read once. A reminder whose
  instant lies before a first reading of the clock is armed two seconds after a second
  reading.
\<close>

fun startup_loop :: "env \<Rightarrow> Reminder list \<Rightarrow> state \<Rightarrow> state \<times> error option" where
  "startup_loop e [] s = (s, None)"
| "startup_loop e (r # rs) s =
     (if done_r r then startup_loop e rs s
      else
        (case from_iso (when_iso r) of
           Inl x \<Rightarrow> (s, Some x)
         | Inr when \<Rightarrow>
             (let (now, s1) = now_utc e s
              in if when < now
                 then (let (now', s2) = now_utc e s1;
                           when' = now' + timedelta_seconds 2
                       in startup_loop e rs (schedule_once when' (id_r r) s2))
                 else startup_loop e rs (schedule_once when (id_r r) s1))))"

definition schedule_all_on_startup :: "env \<Rightarrow> state \<Rightarrow> state \<times> error option" where
  "schedule_all_on_startup e s = startup_loop e (rstore_all s) s"

subsection \<open>Reminder actions of on_callback\<close>

text \<open>
  The tail of \<open>on_callback\<close> that handles the callback data \<open>snooze:id:minutes\<close>,
  \<open>done:id\<close> and \<open>del:id\<close>, after the profile of the caller was fetched at the top of the
  handler. The minutes are optional and default to 5.
\<close>

datatype action = Snooze "int option" | Done | Del

datatype reply =
    NotAvailable
  | SnoozeLimitReached int int string
  | Snoozed datetime
  | MarkedDone
  | Deleted

definition on_callback :: "env \<Rightarrow> int \<Rightarrow> action \<Rightarrow> string \<Rightarrow> state \<Rightarrow> state \<times> (error + reply)" where
  "on_callback e uid act rid s =
     (let (profile, s1) = get_user e uid s
      in case rstore_get s1 rid of
           None \<Rightarrow> (s1, Inr NotAvailable)
         | Some r \<Rightarrow>
             if user_id r \<noteq> uid then (s1, Inr NotAvailable)
             else
               (case act of
                  Snooze m \<Rightarrow>
                    (let minutes = (case m of None \<Rightarrow> 5 | Some k \<Rightarrow> k);
                         limit = get_snooze_limit profile
                     in if snoozes_used r \<ge> limit
                        then (s1, Inr (SnoozeLimitReached (snoozes_used r) limit
                                         (premium_tier profile)))
                        else
                          (let (now, s2) = now_utc e s1
                           in case checked (now + timedelta_minutes minutes) of
                                Inl x \<Rightarrow> (s2, Inl x)
                              | Inr new_when \<Rightarrow>
                                  (let r' = r\<lparr>when_iso := to_iso new_when,
                                              snoozes_used := snoozes_used r + 1\<rparr>;
                                       s3 = schedule_once new_when (id_r r') (rstore_put r' s2)
                                   in (s3, map_sum id Snoozed
                                             (human_dt e new_when (timezone r'))))))
                | Done \<Rightarrow> (rstore_put (r\<lparr>done_r := True\<rparr>) s1, Inr MarkedDone)
                | Del \<Rightarrow> (rstore_delete (id_r r) s1, Inr Deleted)))"

section \<open>Concrete inputs\<close>








definition profile0 :: UserProfile where
  "profile0 = \<lparr>user_id_p = 7, timezone_p = ''Europe/Berlin'', is_premium = False,
     premium_tier = ''FREE'', credits = 15, name_p = None, username = None,
     first_seen = None, last_seen = None, preferences = None, usage_stats = None\<rparr>"

definition code0 :: RedeemCode where
  "code0 = \<lparr>code = ''MIKU-VIP-ABC123'', kind = ''plan'', amount = 0, expires_at = None,
     max_uses = 1, used = 0, plan_name = Some ''VIP''\<rparr>"

definition known_tier :: "string \<Rightarrow> bool" where
  "known_tier t = (t = ''FREE'' \<or> t = ''SILVER'' \<or> t = ''GOLD'' \<or> t = ''PLATINUM'')"

section \<open>Properties of the tier table and the policy\<close>

lemma map_of_PREMIUM_TIERS:
  "map_of PREMIUM_TIERS t =
     (if t = ''FREE'' then Some tier_FREE
      else if t = ''SILVER'' then Some tier_SILVER
      else if t = ''GOLD'' then Some tier_GOLD
      else if t = ''PLATINUM'' then Some tier_PLATINUM
      else None)"
  by (simp add: PREMIUM_TIERS_def)

lemma tier_info_not_premium:
  "\<not> is_premium p \<Longrightarrow> get_user_tier_info p = tier_FREE"
  by (simp add: get_user_tier_info_def dict_get_def map_of_PREMIUM_TIERS Let_def)

lemma tier_info_unknown:
  "\<not> known_tier (premium_tier p) \<Longrightarrow> get_user_tier_info p = tier_FREE"
  by (simp add: get_user_tier_info_def dict_get_def map_of_PREMIUM_TIERS known_tier_def Let_def)

lemma tier_info_premium:
  "is_premium p \<Longrightarrow> get_user_tier_info p =
     (if premium_tier p = ''SILVER'' then tier_SILVER
      else if premium_tier p = ''GOLD'' then tier_GOLD
      else if premium_tier p = ''PLATINUM'' then tier_PLATINUM
      else tier_FREE)"
  by (simp add: get_user_tier_info_def dict_get_def map_of_PREMIUM_TIERS Let_def)

lemma tier_FREE_values: "max_active tier_FREE = 20 \<and> snooze_limit tier_FREE = 1"
  by (simp add: tier_FREE_def)

text \<open>
  C7. \<open>can_create\<close> denies when the active count has reached the tier's limit, denies a
  non-premium profile whose credits are zero or less, and allows in every other case;
  so it denies at the limit itself and allows one below it for a profile that is premium
  or has credits.
\<close>

theorem can_create_verdict:
  "(n \<ge> max_active (get_user_tier_info p) \<longrightarrow>
      can_create p n =
        (False, Some (LimitReached n (max_active (get_user_tier_info p)) (premium_tier p))))
   \<and> (n < max_active (get_user_tier_info p) \<and> \<not> is_premium p \<and> credits p \<le> 0 \<longrightarrow>
      can_create p n = (False, Some NoCredits))
   \<and> (\<not> is_premium p \<and> credits p \<le> 0 \<longrightarrow> \<not> fst (can_create p n))
   \<and> (n < max_active (get_user_tier_info p) \<and> (is_premium p \<or> credits p > 0) \<longrightarrow>
      can_create p n = (True, None))
   \<and> \<not> fst (can_create p (max_active (get_user_tier_info p)))
   \<and> (is_premium p \<or> credits p > 0 \<longrightarrow>
      fst (can_create p (max_active (get_user_tier_info p) - 1)))"
  by (simp add: can_create_def Let_def)

theorem can_create_verdict_witness:
  "can_create profile0 20 = (False, Some (LimitReached 20 20 ''FREE''))
   \<and> can_create (profile0\<lparr>credits := 0\<rparr>) 3 = (False, Some NoCredits)
   \<and> can_create (profile0\<lparr>credits := 1\<rparr>) 19 = (True, None)
   \<and> can_create (profile0\<lparr>is_premium := True, premium_tier := ''GOLD'', credits := 0\<rparr>) 299
       = (True, None)
   \<and> \<not> fst (can_create (profile0\<lparr>is_premium := True, premium_tier := ''GOLD''\<rparr>) 300)"
proof -
  let ?g = "profile0\<lparr>is_premium := True, premium_tier := ''GOLD'', credits := 0\<rparr>"
  let ?h = "profile0\<lparr>is_premium := True, premium_tier := ''GOLD''\<rparr>"
  have f: "get_user_tier_info profile0 = tier_FREE"
    "get_user_tier_info (profile0\<lparr>credits := 0\<rparr>) = tier_FREE"
    "get_user_tier_info (profile0\<lparr>credits := 1\<rparr>) = tier_FREE"
    by (simp_all add: tier_info_not_premium profile0_def)
  have g: "get_user_tier_info ?g = tier_GOLD" "get_user_tier_info ?h = tier_GOLD"
    by (simp_all add: tier_info_premium)
  have v: "max_active tier_FREE = 20" "max_active tier_GOLD = 300"
    by (simp_all add: tier_FREE_def tier_GOLD_def)
  have 1: "can_create profile0 20 = (False, Some (LimitReached 20 20 ''FREE''))"
    using can_create_verdict [where p = profile0 and n = 20] by (simp add: f v) (simp add: profile0_def)
  have 2: "can_create (profile0\<lparr>credits := 0\<rparr>) 3 = (False, Some NoCredits)"
    using can_create_verdict [where p = "profile0\<lparr>credits := 0\<rparr>" and n = 3]
    by (simp add: f v) (simp add: profile0_def)
  have 3: "can_create (profile0\<lparr>credits := 1\<rparr>) 19 = (True, None)"
    using can_create_verdict [where p = "profile0\<lparr>credits := 1\<rparr>" and n = 19] by (simp add: f v)
  have 4: "can_create ?g 299 = (True, None)"
    using can_create_verdict [where p = ?g and n = 299] by (simp add: g v)
  have 5: "\<not> fst (can_create ?h 300)"
    using can_create_verdict [where p = ?h and n = 300] by (simp add: g v)
  from 1 2 3 4 5 show ?thesis by blast
qed

text \<open>
  C10. The limits the policy uses come from \<open>get_user_tier_info\<close>: a profile that is not
  premium gets the FREE entry (20 active reminders, 1 snooze) whatever its
  \<open>premium_tier\<close> says, and so does a profile whose \<open>premium_tier\<close> is none of the four
  table keys; redeeming a plan code whose plan name is no table key sets \<open>is_premium\<close>
  and leaves the profile on the FREE limits.
\<close>

theorem tier_limits_fall_back_to_free:
  "get_snooze_limit p = snooze_limit (get_user_tier_info p)
   \<and> (\<not> is_premium p \<or> \<not> known_tier (premium_tier p) \<longrightarrow>
        get_user_tier_info p = tier_FREE
        \<and> max_active (get_user_tier_info p) = 20 \<and> get_snooze_limit p = 1
        \<and> fst (can_create p n) = (n < 20 \<and> (is_premium p \<or> credits p > 0)))
   \<and> ((case plan_name c of None \<Rightarrow> True | Some m \<Rightarrow> \<not> known_tier m) \<longrightarrow>
        is_premium (redeem_plan p c)
        \<and> max_active (get_user_tier_info (redeem_plan p c)) = 20
        \<and> get_snooze_limit (redeem_plan p c) = 1)"
proof -
  have a: "\<not> is_premium q \<or> \<not> known_tier (premium_tier q) \<Longrightarrow>
      get_user_tier_info q = tier_FREE" for q
    using tier_info_not_premium tier_info_unknown by blast
  have b: "(case plan_name c of None \<Rightarrow> True | Some m \<Rightarrow> \<not> known_tier m) \<Longrightarrow>
      \<not> known_tier (premium_tier (redeem_plan p c))"
    by (auto simp: redeem_plan_def known_tier_def split: option.splits)
  have c: "is_premium (redeem_plan p c)"
    by (simp add: redeem_plan_def)
  have d: "get_user_tier_info q = tier_FREE \<Longrightarrow>
      fst (can_create q n) = (n < 20 \<and> (is_premium q \<or> credits q > 0))" for q
    by (auto simp: can_create_def Let_def tier_FREE_values)
  show ?thesis
    using a [of p] a [of "redeem_plan p c"] b c d [of p]
    by (auto simp: get_snooze_limit_def tier_FREE_values)
qed

theorem tier_limits_fall_back_to_free_witness:
  "get_snooze_limit (profile0\<lparr>premium_tier := ''PLATINUM''\<rparr>) = 1
   \<and> max_active (get_user_tier_info (profile0\<lparr>premium_tier := ''PLATINUM''\<rparr>)) = 20
   \<and> is_premium (redeem_plan profile0 code0)
   \<and> premium_tier (redeem_plan profile0 code0) = ''VIP''
   \<and> max_active (get_user_tier_info (redeem_plan profile0 code0)) = 20
   \<and> get_snooze_limit (redeem_plan profile0 code0) = 1"
proof -
  have h1: "\<not> is_premium (profile0\<lparr>premium_tier := ''PLATINUM''\<rparr>)"
    by (simp add: profile0_def)
  have h2: "case plan_name code0 of None \<Rightarrow> True | Some n \<Rightarrow> \<not> known_tier n"
    by (simp add: code0_def known_tier_def)
  have t: "premium_tier (redeem_plan profile0 code0) = ''VIP''"
    by (simp add: redeem_plan_def code0_def)
  show ?thesis
    using tier_limits_fall_back_to_free
        [where p = "profile0\<lparr>premium_tier := ''PLATINUM''\<rparr>" and c = code0 and n = 5]
      tier_limits_fall_back_to_free [where p = profile0 and c = code0 and n = 5] h1 h2 t
    by (simp add: tier_FREE_values)
qed

section \<open>Properties of the recurrence calculator\<close>

subsection \<open>Weekday arithmetic\<close>

lemma weekday_shift: "(q + n + 3) mod 7 = ((q + 3) mod 7 + n) mod (7::int)"
  by (simp add: mod_simps ac_simps)

lemma wd_nonzero: 
  assumes "0 \<le> d" "d < 7" "0 \<le> w" "w < 7" "w \<noteq> d"
  shows "(d - w) mod (7::int) \<noteq> 0"
proof
  assume "(d - w) mod 7 = 0"
  then have "7 dvd (d - w)" by (simp add: dvd_eq_mod_eq_0)
  then obtain k where k: "d - w = 7 * k" by (auto simp: dvd_def)
  have "-7 < d - w" "d - w < 7" using assms by linarith+
  then have "k = 0" using k by linarith
  then have "d - w = 0" using k by simp
  then show False using assms(5) by simp
qed

lemma wd_step:
  assumes "0 \<le> d" "d < 7" "0 \<le> w" "w < 7" "w \<noteq> d"
  shows "(d - (w + 1) mod 7) mod 7 + 1 = (d - w) mod (7::int)"
proof -
  define x where "x = (d - w) mod 7"
  have x: "0 \<le> x" "x < 7" by (simp_all add: x_def)
  have "x \<noteq> 0" unfolding x_def using assms by (rule wd_nonzero)
  then have x1: "1 \<le> x" using x by linarith
  have "(d - (w + 1) mod 7) mod 7 = (d - (w + 1)) mod 7"
    by (simp add: mod_simps)
  also have "\<dots> = ((d - w) - 1) mod 7"
    by (simp add: algebra_simps)
  also have "\<dots> = (x - 1) mod 7"
    unfolding x_def by (simp add: mod_simps)
  also have "\<dots> = x - 1"
    using x x1 by simp
  finally show ?thesis unfolding x_def by simp
qed


lemma weekday_plus_days:
  "weekday (dt\<lparr>wall := wall dt + n * 86400000000\<rparr>) = (weekday dt + n) mod 7"
proof -
  have "(wall dt + n * 86400000000) div 86400000000 = wall dt div 86400000000 + n"
    by simp
  then have "weekday (dt\<lparr>wall := wall dt + n * 86400000000\<rparr>)
      = (wall dt div 86400000000 + n + 3) mod 7"
    unfolding weekday_def by (simp add: add.commute)
  also have "\<dots> = ((wall dt div 86400000000 + 3) mod 7 + n) mod 7"
    by (rule weekday_shift)
  finally show ?thesis
    unfolding weekday_def .
qed

lemma weekday_plus_day:
  "weekday (dt\<lparr>wall := wall dt + 86400000000\<rparr>) = (weekday dt + 1) mod 7"
  using weekday_plus_days [of dt 1] by simp



lemma move_to_weekday_Inr:
  "move_to_weekday d nl = Inr nl' \<Longrightarrow>
     weekday nl' = d \<and> utcoffset nl' = utcoffset nl
     \<and> wall nl' = wall nl + ((d - weekday nl) mod 7) * 86400000000"
proof (induction d nl rule: move_to_weekday.induct)
  case (1 d nl)
  show ?case
  proof (cases "weekday nl = d")
    case True
    then have "nl' = nl" using "1.prems" by (subst (asm) move_to_weekday.simps) simp
    then show ?thesis using True by simp
  next
    case False
    then obtain nl1 where p: "plus_timedelta nl (timedelta_days 1) = Inr nl1"
      and m: "move_to_weekday d nl1 = Inr nl'"
      using "1.prems" by (subst (asm) move_to_weekday.simps) (auto split: sum.splits)
    have nl1: "nl1 = nl\<lparr>wall := wall nl + 86400000000\<rparr>"
      using p by (auto simp: plus_timedelta_def checked_def timedelta_days_def split: if_splits)
    have ih: "weekday nl' = d \<and> utcoffset nl' = utcoffset nl1
        \<and> wall nl' = wall nl1 + ((d - weekday nl1) mod 7) * 86400000000"
      using "1.IH" [OF False p m] .
    have wd: "0 \<le> weekday nl \<and> weekday nl < 7"
      by (simp add: weekday_def)
    have "0 \<le> weekday nl' \<and> weekday nl' < 7"
      by (simp add: weekday_def)
    then have dr: "0 \<le> d \<and> d < 7"
      using ih by blast
    have w1: "weekday nl1 = (weekday nl + 1) mod 7"
      unfolding nl1 by (rule weekday_plus_day)
    define a where "a = (d - weekday nl1) mod 7"
    define b where "b = (d - weekday nl) mod 7"
    have "(d - (weekday nl + 1) mod 7) mod 7 + 1 = (d - weekday nl) mod 7"
      using wd_step [of d "weekday nl"] wd dr False by blast
    then have ab: "a + 1 = b"
      unfolding a_def b_def w1 .
    have w: "wall nl1 = wall nl + 86400000000"
      unfolding nl1 by simp
    have "wall nl' = wall nl1 + a * 86400000000"
      using ih unfolding a_def by blast
    also have "\<dots> = wall nl + (a + 1) * 86400000000"
      unfolding w by (simp only: distrib_right mult_1 add.assoc add.commute)
    finally have "wall nl' = wall nl + b * 86400000000"
      unfolding ab .
    moreover have "utcoffset nl1 = utcoffset nl"
      unfolding nl1 by simp
    ultimately show ?thesis
      using ih unfolding b_def by simp
  qed
qed



lemma move_to_weekday_Inl: "move_to_weekday d nl = Inl x \<Longrightarrow> x = OverflowError"
proof (induction d nl rule: move_to_weekday.induct)
  case (1 d nl)
  show ?case
  proof (cases "weekday nl = d")
    case True
    then show ?thesis using "1.prems" by (subst (asm) move_to_weekday.simps) simp
  next
    case False
    show ?thesis
    proof (cases "plus_timedelta nl (timedelta_days 1)")
      case (Inl y)
      then have "x = y" using False "1.prems" by (subst (asm) move_to_weekday.simps) simp
      moreover have "y = OverflowError"
        using Inl by (auto simp: plus_timedelta_def checked_def split: if_splits)
      ultimately show ?thesis by simp
    next
      case (Inr nl1)
      then have "move_to_weekday d nl1 = Inl x"
        using False "1.prems" by (subst (asm) move_to_weekday.simps) simp
      then show ?thesis using "1.IH" [OF False Inr] by simp
    qed
  qed
qed




subsection \<open>Daily recurrence\<close>




subsection \<open>Weekly recurrence\<close>




end
